theory Spec2Isabelle
  imports Main "HOL-Library.Sublist" "HOL-Library.Multiset"
begin

section \<open>Vokasi Assistant: the retrieval-augmented answer pipeline of \<open>app.py\<close>\<close>

text \<open>
  \<open>app.py\<close> is a Streamlit script: it is executed from top to bottom on every user
  interaction, with \<open>st.session_state\<close> surviving between executions. The model has one
  function per source function, a function \<open>script\<close> for one execution of the script
  body, and \<open>script_run\<close> for one interaction (an execution plus the re-execution that
  \<open>st.rerun()\<close> asks for).

  Python strings are modelled as \<open>string\<close>, the UTF-8 bytes of the text: concatenation
  and containment of Python strings carry over to their UTF-8 encodings.
\<close>

subsection \<open>Exceptions\<close>

text \<open>
  Every exception of the source is a value, named by its class; \<open>KeyError\<close> carries the
  missing key and the message texts of the others are not modelled. \<open>KeyError\<close>,
  \<open>ValueError\<close>, \<open>IndexError\<close> and \<open>FileNotFoundError\<close> are Python's own (Streamlit's
  \<open>StreamlitSecretNotFoundError\<close> is a \<open>FileNotFoundError\<close>); \<open>ProviderError\<close> stands
  for whatever the hosted embedding model, the vector store or the hosted language model
  raise, with its \<open>str\<close>; \<open>NotModelled\<close> marks format strings outside the fragment of
  \<open>str.format\<close> modelled below.
\<close>

datatype error =
    KeyError string
  | ValueError
  | IndexError
  | FileNotFoundError
  | ProviderError string
  | NotModelled

text \<open>\<open>except KeyError\<close> catches exactly the exceptions of that class.\<close>

fun is_KeyError :: "error \<Rightarrow> bool" where
  "is_KeyError (KeyError k) = True"
| "is_KeyError e = False"

subsection \<open>Documents and chat turns\<close>

text \<open>A retrieved chunk is a LangChain \<open>Document\<close>; only \<open>page_content\<close> is read.\<close>

record document =
  page_content :: string
  metadata :: "(string \<times> string) list"

text \<open>A chat turn is the dict \<open>{"role": ..., "content": ...}\<close> of the source.\<close>

record message =
  role :: string
  content :: string

subsection \<open>\<open>str.format\<close> on the fragment the prompt template uses\<close>

text \<open>
  \<open>PromptTemplate\<close> renders its template with Python's \<open>string.Formatter\<close>: literal
  text is copied, \<open>{{\<close> and \<open>}}\<close> stand for one brace, \<open>{name}\<close> is replaced by the
  value of the keyword argument \<open>name\<close>, and the substituted value is not scanned again.
  A lone brace is a \<open>ValueError\<close>, \<open>{}\<close> an \<open>IndexError\<close> (there are no positional
  arguments), a missing name a \<open>KeyError\<close>. Conversions, format specs, attribute and
  index access (\<open>!\<close>, \<open>:\<close>, \<open>.\<close>, \<open>[\<close> inside a field) are not modelled.

  The template is scanned from left to right, one character at a time; \<open>scan\<close> is where
  the scanner stands: in literal text, after an opening brace, inside the name of a field,
  or after a closing brace. \<open>parse\<close> lists the pieces of a whole template, as
  \<open>Formatter().parse\<close> does; \<open>vformat\<close> formats, and looks every field up as soon as
  the scanner has read it, so that the first error from the left is the one raised.
\<close>

datatype piece = Lit char | Var string

datatype scan = Text | Opened | Field string | Closed

definition cons_piece :: "piece \<Rightarrow> error + piece list \<Rightarrow> error + piece list" where
  "cons_piece p r = (case r of Inl e \<Rightarrow> Inl e | Inr ps \<Rightarrow> Inr (p # ps))"

fun parse :: "scan \<Rightarrow> string \<Rightarrow> error + piece list" where
  "parse Text [] = Inr []"
| "parse Opened [] = Inl ValueError"
| "parse (Field n) [] = Inl ValueError"
| "parse Closed [] = Inl ValueError"
| "parse Text (c # cs) =
     (if c = CHR ''{'' then parse Opened cs
      else if c = CHR ''}'' then parse Closed cs
      else cons_piece (Lit c) (parse Text cs))"
| "parse Opened (c # cs) =
     (if c = CHR ''{'' then cons_piece (Lit c) (parse Text cs)
      else if c = CHR ''}'' then Inl IndexError
      else if c \<in> set ''!:.['' then Inl NotModelled
      else parse (Field [c]) cs)"
| "parse (Field n) (c # cs) =
     (if c = CHR ''}'' then cons_piece (Var n) (parse Text cs)
      else if c \<in> set ''!:.[{'' then Inl NotModelled
      else parse (Field (n @ [c])) cs)"
| "parse Closed (c # cs) =
     (if c = CHR ''}'' then cons_piece (Lit c) (parse Text cs)
      else Inl ValueError)"

text \<open>The text that a list of pieces stands for, under given keyword arguments.\<close>

fun render :: "(string \<rightharpoonup> string) \<Rightarrow> piece list \<Rightarrow> error + string" where
  "render kw [] = Inr []"
| "render kw (Lit c # ps) =
     (case render kw ps of Inl e \<Rightarrow> Inl e | Inr s \<Rightarrow> Inr (c # s))"
| "render kw (Var n # ps) =
     (case kw n of
        None \<Rightarrow> Inl (KeyError n)
      | Some v \<Rightarrow> (case render kw ps of Inl e \<Rightarrow> Inl e | Inr s \<Rightarrow> Inr (v @ s)))"

fun variables :: "piece list \<Rightarrow> string list" where
  "variables [] = []"
| "variables (Lit c # ps) = variables ps"
| "variables (Var n # ps) = n # variables ps"

definition emit :: "string \<Rightarrow> error + string \<Rightarrow> error + string" where
  "emit s r = (case r of Inl e \<Rightarrow> Inl e | Inr t \<Rightarrow> Inr (s @ t))"

fun vformat :: "(string \<rightharpoonup> string) \<Rightarrow> scan \<Rightarrow> string \<Rightarrow> error + string" where
  "vformat kw Text [] = Inr []"
| "vformat kw Opened [] = Inl ValueError"
| "vformat kw (Field n) [] = Inl ValueError"
| "vformat kw Closed [] = Inl ValueError"
| "vformat kw Text (c # cs) =
     (if c = CHR ''{'' then vformat kw Opened cs
      else if c = CHR ''}'' then vformat kw Closed cs
      else emit [c] (vformat kw Text cs))"
| "vformat kw Opened (c # cs) =
     (if c = CHR ''{'' then emit [c] (vformat kw Text cs)
      else if c = CHR ''}'' then Inl IndexError
      else if c \<in> set ''!:.['' then Inl NotModelled
      else vformat kw (Field [c]) cs)"
| "vformat kw (Field n) (c # cs) =
     (if c = CHR ''}'' then
        (case kw n of
           None \<Rightarrow> Inl (KeyError n)
         | Some v \<Rightarrow> emit v (vformat kw Text cs))
      else if c \<in> set ''!:.[{'' then Inl NotModelled
      else vformat kw (Field (n @ [c])) cs)"
| "vformat kw Closed (c # cs) =
     (if c = CHR ''}'' then emit [c] (vformat kw Text cs)
      else Inl ValueError)"

definition format_str :: "string \<Rightarrow> (string \<rightharpoonup> string) \<Rightarrow> error + string" where
  "format_str tmpl kw = vformat kw Text tmpl"

subsection \<open>The prompt template\<close>

definition prompt_template :: string where
  \<open>prompt_template = ''\<newline>Anda adalah asisten AI yang membantu. Jawablah pertanyaan pengguna HANYA berdasarkan konteks yang diberikan di bawah ini.\<newline>Jika informasi tidak ditemukan dalam konteks, katakan saja "Maaf, saya tidak menemukan informasi mengenai hal tersebut di dalam dokumen."\<newline>Jangan mencoba mengarang jawaban.\<newline>\<newline>Konteks:\<newline>{context}\<newline>\<newline>Pertanyaan:\<newline>{question}\<newline>\<newline>Jawaban yang Bermanfaat:\<newline>''\<close>

text \<open>\<open>PromptTemplate(template=..., input_variables=[...])\<close>.\<close>

record prompt_t =
  template :: string
  input_variables :: "string list"

definition prompt :: prompt_t where
  "prompt = \<lparr>template = prompt_template, input_variables = [''context'', ''question'']\<rparr>"

text \<open>
  Invoking a prompt on a dict: every input variable must be a key of the dict
  (\<open>KeyError\<close> otherwise), then the template is formatted with the dict.
\<close>

definition prompt_invoke :: "prompt_t \<Rightarrow> (string \<rightharpoonup> string) \<Rightarrow> error + string" where
  "prompt_invoke p kw =
     (case filter (\<lambda>v. kw v = None) (input_variables p) of
        [] \<Rightarrow> format_str (template p) kw
      | v # _ \<Rightarrow> Inl (KeyError v))"

subsection \<open>Joining the retrieved chunks\<close>

text \<open>\<open>sep.join(xs)\<close> of Python.\<close>

fun join :: "string \<Rightarrow> string list \<Rightarrow> string" where
  "join sep [] = []"
| "join sep [x] = x"
| "join sep (x # y # ys) = x @ sep @ join sep (y # ys)"

definition format_docs :: "document list \<Rightarrow> string" where
  "format_docs docs = join ''\<newline>\<newline>'' (map page_content docs)"

subsection \<open>The external providers and the chain\<close>

text \<open>
  The retriever and the language model are hosted services: they can fail, and the
  language model samples (temperature 0.3), so neither is a function of its argument
  alone. Each takes the state \<open>'w\<close> of the world outside the script and returns the new
  one with its result. \<open>llm\<close> stands for \<open>llm | StrOutputParser()\<close>: the text of the
  model's reply.
\<close>

type_synonym 'w retriever = "string \<Rightarrow> 'w \<Rightarrow> (error + document list) \<times> 'w"

type_synonym 'w llm = "string \<Rightarrow> 'w \<Rightarrow> (error + string) \<times> 'w"

text \<open>
  A vector store answers \<open>similarity_search(query, k)\<close>;
  \<open>as_retriever(search_kwargs={'k': k})\<close> fixes \<open>k\<close>.
\<close>

type_synonym 'w vector_store = "string \<Rightarrow> nat \<Rightarrow> 'w \<Rightarrow> (error + document list) \<times> 'w"

definition as_retriever :: "'w vector_store \<Rightarrow> nat \<Rightarrow> 'w retriever" where
  "as_retriever vector_store k = (\<lambda>query. vector_store query k)"

text \<open>
  The stage \<open>{"context": ..., "question": ...} | prompt\<close>: the prompt invoked on the
  dict of the two values.
\<close>

definition compose :: "string \<Rightarrow> string \<Rightarrow> error + string" where
  "compose context question =
     prompt_invoke prompt [''context'' \<mapsto> context, ''question'' \<mapsto> question]"

text \<open>
  \<open>{"context": retriever | format_docs, "question": RunnablePassthrough()} | prompt |
  llm | StrOutputParser()\<close>, invoked on the question. An exception of any stage leaves
  the chain at once.
\<close>

definition rag_chain :: "'w retriever \<Rightarrow> 'w llm \<Rightarrow> string \<Rightarrow> 'w \<Rightarrow> (error + string) \<times> 'w" where
  "rag_chain retriever llm question w =
     (case retriever question w of
        (Inl e, w1) \<Rightarrow> (Inl e, w1)
      | (Inr docs, w1) \<Rightarrow>
          (case compose (format_docs docs) question of
             Inl e \<Rightarrow> (Inl e, w1)
           | Inr p \<Rightarrow> llm p w1))"

subsection \<open>Loading the components\<close>

text \<open>
  The constructors of the three external components, each of which may raise:
  \<open>ChatGoogleGenerativeAI(model, google_api_key, ...)\<close>,
  \<open>GoogleGenerativeAIEmbeddings(model, google_api_key)\<close> and
  \<open>Chroma(persist_directory, embedding_function)\<close>. \<open>'e\<close> is the type of the
  embeddings object. \<open>load_components\<close> catches every exception they raise and reads
  only its \<open>str\<close>, so an exception of a constructor is that text (\<open>Inl\<close>).
\<close>

record ('w, 'e) providers =
  ChatGoogleGenerativeAI :: "string \<Rightarrow> string \<Rightarrow> string + 'w llm"
  GoogleGenerativeAIEmbeddings :: "string \<Rightarrow> string \<Rightarrow> string + 'e"
  Chroma :: "string \<Rightarrow> 'e \<Rightarrow> string + 'w vector_store"

text \<open>The calls of the Streamlit API that put something on the page, in call order.\<close>

datatype ui =
    St_title string
  | St_caption string
  | St_error string "string option"
  | St_info string
  | St_subheader string
  | St_button string
  | St_chat_message string
  | St_markdown string
  | St_chat_input string
  | St_spinner string

text \<open>
  \<open>st.error(f"Terjadi kesalahan saat inisialisasi: {e}")\<close>, for an exception whose
  \<open>str\<close> is \<open>e\<close>.
\<close>

definition init_failed :: "string \<Rightarrow> ui" where
  "init_failed e = St_error (''Terjadi kesalahan saat inisialisasi: '' @ e) None"

text \<open>
  \<open>load_components\<close>: any exception of the \<open>try\<close> block is shown with \<open>st.error\<close> and
  the function returns \<open>(None, None)\<close>. \<open>st.cache_resource\<close> keeps the returned pair for
  later executions and replays the message; with the providers fixed, calling the
  function again gives the same.
\<close>

definition load_components ::
  "('w, 'e) providers \<Rightarrow> string \<Rightarrow> ui list \<times> 'w llm option \<times> 'w retriever option" where
  "load_components P google_api_key =
     (case ChatGoogleGenerativeAI P ''gemini-1.5-flash'' google_api_key of
        Inl e \<Rightarrow> ([init_failed e], None, None)
      | Inr llm \<Rightarrow>
          (case GoogleGenerativeAIEmbeddings P ''models/embedding-001'' google_api_key of
             Inl e \<Rightarrow> ([init_failed e], None, None)
           | Inr embeddings \<Rightarrow>
               (case Chroma P ''chroma_db'' embeddings of
                  Inl e \<Rightarrow> ([init_failed e], None, None)
                | Inr vector_store \<Rightarrow> ([], Some llm, Some (as_retriever vector_store 3)))))"

subsection \<open>One execution of the script\<close>

text \<open>
  \<open>st.session_state\<close>: the key \<open>messages\<close> is absent (\<open>None\<close>) until the script
  sets it. The transcript is the list under that key.
\<close>

record session =
  messages :: "message list option"

definition transcript :: "session \<Rightarrow> message list" where
  "transcript ss = (case messages ss of None \<Rightarrow> [] | Some ms \<Rightarrow> ms)"

text \<open>
  What the widgets return in one execution: \<open>st.button\<close> is true in the execution its
  click started, \<open>st.chat_input\<close> returns the submitted text or \<open>None\<close>.
\<close>

record input =
  reset_clicked :: bool
  user_prompt :: "string option"

text \<open>
  How an execution ends: at the last line, by \<open>st.stop()\<close>, by \<open>st.rerun()\<close>, or by an
  exception that nothing catches. Streamlit then shows the exception on the page; that
  is Streamlit's doing, not a call of the script, and is not part of \<open>shown\<close>.
\<close>

datatype outcome = Finished | Stopped | Rerun | Raised error

text \<open>
  The result of an execution: the session state and the outside world afterwards, the
  page, how it ended, and the value bound to the variable \<open>response\<close>, if any.
\<close>

record 'w run =
  session :: session
  world :: 'w
  shown :: "ui list"
  outcome :: outcome
  response :: "string option"

definition page_title :: string where
  "page_title = [CHR 0xF0, CHR 0x9F, CHR 0x92, CHR 0xAC] @ '' Vokasi Assistant (RAG Version)''"

definition missing_key_error :: string where
  "missing_key_error = ''Kunci API Google AI tidak ditemukan. Harap atur di file secrets.toml.''"

definition missing_key_icon :: string where
  "missing_key_icon = [CHR 0xF0, CHR 0x9F, CHR 0x9A, CHR 0xA8]"

definition missing_key_info :: string where
  \<open>missing_key_info = ''\<newline>        Untuk mengatur kunci API Anda:\<newline>\<newline>        1. Buat file bernama `.streamlit/secrets.toml` di direktori proyek Anda.\<newline>\<newline>        2. Tambahkan baris berikut ke dalam file tersebut:\<newline>\<newline>           `GOOGLE_API_KEY = "API_KEY_ANDA"`\<newline>\<newline>        3. Ganti `"API_KEY_ANDA"` dengan kunci API Google AI Anda yang sebenarnya.\<newline>    ''\<close>

definition user_turn :: "string \<Rightarrow> message" where
  "user_turn q = \<lparr>role = ''user'', content = q\<rparr>"

definition assistant_turn :: "string \<Rightarrow> message" where
  "assistant_turn a = \<lparr>role = ''assistant'', content = a\<rparr>"

text \<open>
  Section 5 of the script (the sidebar, the transcript, the chat input), reached with
  both components loaded. \<open>ui\<close> is the page so far.
\<close>

definition chat ::
  "'w retriever \<Rightarrow> 'w llm \<Rightarrow> input \<Rightarrow> session \<Rightarrow> 'w \<Rightarrow> ui list \<Rightarrow> 'w run" where
  "chat retriever llm inp ss w ui =
     (let ui1 = ui @ [St_subheader ''Opsi'', St_button ''Reset Percakapan''] in
      if reset_clicked inp then
        \<lparr>session = ss\<lparr>messages := Some []\<rparr>, world = w, shown = ui1, outcome = Rerun,
         response = None\<rparr>
      else
        let ss1 = (if messages ss = None then ss\<lparr>messages := Some []\<rparr> else ss);
            old = transcript ss1;
            ui2 = ui1 @ concat (map (\<lambda>m. [St_chat_message (role m), St_markdown (content m)]) old)
                    @ [St_chat_input ''Apa yang ingin Anda tanyakan?'']
        in case user_prompt inp of
             None \<Rightarrow>
               \<lparr>session = ss1, world = w, shown = ui2, outcome = Finished, response = None\<rparr>
           | Some q \<Rightarrow>
               if q = [] then
                 \<lparr>session = ss1, world = w, shown = ui2, outcome = Finished, response = None\<rparr>
               else
                 let ss2 = ss1\<lparr>messages := Some (old @ [user_turn q])\<rparr>;
                     ui3 = ui2 @ [St_chat_message ''user'', St_markdown q,
                                  St_chat_message ''assistant'', St_spinner ''Mencari jawaban...'']
                 in (case rag_chain retriever llm q w of
                       (Inl e, w') \<Rightarrow>
                         \<lparr>session = ss2, world = w', shown = ui3, outcome = Raised e,
                          response = None\<rparr>
                     | (Inr r, w') \<Rightarrow>
                         \<lparr>session = ss2\<lparr>messages := Some (old @ [user_turn q, assistant_turn r])\<rparr>,
                          world = w', shown = ui3 @ [St_markdown r], outcome = Finished,
                          response = Some r\<rparr>))"

text \<open>
  \<open>st.secrets\<close>: the secrets of \<open>.streamlit/secrets.toml\<close>, or no such file at all.
  \<open>st.secrets[key]\<close> raises \<open>KeyError\<close> when the file has no such key, and
  \<open>FileNotFoundError\<close> when there is no file.
\<close>

datatype secrets = NoSecretsFile | SecretsFile "string \<rightharpoonup> string"

fun secrets_getitem :: "secrets \<Rightarrow> string \<Rightarrow> error + string" where
  "secrets_getitem NoSecretsFile key = Inl FileNotFoundError"
| "secrets_getitem (SecretsFile m) key =
     (case m key of None \<Rightarrow> Inl (KeyError key) | Some v \<Rightarrow> Inr v)"

text \<open>
  The script from its first line. The \<open>try\<close> around the lookup of the key catches
  \<open>KeyError\<close> only; any other exception of the lookup leaves the script uncaught, before
  anything but the title and the caption is on the page.
\<close>

definition script ::
  "('w, 'e) providers \<Rightarrow> secrets \<Rightarrow> input \<Rightarrow> session \<Rightarrow> 'w \<Rightarrow> 'w run" where
  "script P secrets inp ss w =
     (let ui0 = [St_title page_title,
                 St_caption ''Tanyakan apapun terkait dokumen pengetahuan Anda'']
      in case secrets_getitem secrets ''GOOGLE_API_KEY'' of
           Inl e \<Rightarrow>
             if is_KeyError e then
               \<lparr>session = ss, world = w,
                shown = ui0 @ [St_error missing_key_error (Some missing_key_icon),
                               St_info missing_key_info],
                outcome = Stopped, response = None\<rparr>
             else
               \<lparr>session = ss, world = w, shown = ui0, outcome = Raised e, response = None\<rparr>
         | Inr google_api_key \<Rightarrow>
             (case load_components P google_api_key of
                (ui1, Some llm, Some retriever) \<Rightarrow> chat retriever llm inp ss w (ui0 @ ui1)
              | (ui1, _, _) \<Rightarrow>
                  \<lparr>session = ss, world = w, shown = ui0 @ ui1, outcome = Stopped,
                   response = None\<rparr>))"

text \<open>
  One interaction: the execution it starts and, when that ends in \<open>st.rerun()\<close>, the
  execution that follows, in which no widget reports an event.
\<close>

definition script_run ::
  "('w, 'e) providers \<Rightarrow> secrets \<Rightarrow> input \<Rightarrow> session \<Rightarrow> 'w \<Rightarrow> 'w run" where
  "script_run P secrets inp ss w =
     (let r = script P secrets inp ss w in
      if outcome r = Rerun
      then script P secrets \<lparr>reset_clicked = False, user_prompt = None\<rparr> (session r) (world r)
      else r)"

text \<open>The two operations of a chat session: submitting a question, and the reset button.\<close>

definition submit ::
  "('w, 'e) providers \<Rightarrow> secrets \<Rightarrow> string \<Rightarrow> session \<Rightarrow> 'w \<Rightarrow> 'w run" where
  "submit P secrets q ss w =
     script_run P secrets \<lparr>reset_clicked = False, user_prompt = Some q\<rparr> ss w"

definition reset ::
  "('w, 'e) providers \<Rightarrow> secrets \<Rightarrow> session \<Rightarrow> 'w \<Rightarrow> 'w run" where
  "reset P secrets ss w =
     script_run P secrets \<lparr>reset_clicked = True, user_prompt = None\<rparr> ss w"

text \<open>
  A sequence of submits, each of which succeeds: the execution ends at the last line
  with an answer bound to \<open>response\<close>. The result is \<open>None\<close> as soon as one does not.
\<close>

fun submit_all ::
  "('w, 'e) providers \<Rightarrow> secrets \<Rightarrow> string list \<Rightarrow> session \<Rightarrow> 'w
     \<Rightarrow> (session \<times> 'w \<times> string list) option" where
  "submit_all P secrets [] ss w = Some (ss, w, [])"
| "submit_all P secrets (q # qs) ss w =
     (let r = submit P secrets q ss w in
      case (outcome r, response r) of
        (Finished, Some a) \<Rightarrow>
          (case submit_all P secrets qs (session r) (world r) of
             None \<Rightarrow> None
           | Some (ss', w', as) \<Rightarrow> Some (ss', w', a # as))
      | _ \<Rightarrow> None)"

subsection \<open>The vector index\<close>

text \<open>
  Modelled from the spec: the Vector Index and its top-K similarity search. The
  repository holds neither the index (the directory \<open>chroma_db\<close>) nor the code of the
  vector store. The spec has the search return the stored chunks by descending similarity
  score to the query, cut to the first K, fewer when the index holds fewer. \<open>score\<close> is
  the index's similarity metric and \<open>index\<close> its stored chunks; the search reads the
  index and leaves the world as it is.
\<close>

definition top_k_search ::
  "(string \<Rightarrow> document \<Rightarrow> 's::linorder) \<Rightarrow> document list \<Rightarrow> 'w vector_store" where
  "top_k_search score index query k w = (Inr (take k (rev (sort_key (score query) index))), w)"

subsection \<open>Constants for stating the results\<close>

text \<open>The three literal stretches of the template, around its two fields.\<close>

definition prompt_head :: string where
  \<open>prompt_head = ''\<newline>Anda adalah asisten AI yang membantu. Jawablah pertanyaan pengguna HANYA berdasarkan konteks yang diberikan di bawah ini.\<newline>Jika informasi tidak ditemukan dalam konteks, katakan saja "Maaf, saya tidak menemukan informasi mengenai hal tersebut di dalam dokumen."\<newline>Jangan mencoba mengarang jawaban.\<newline>\<newline>Konteks:\<newline>''\<close>

definition prompt_mid :: string where
  "prompt_mid = ''\<newline>\<newline>Pertanyaan:\<newline>''"

definition prompt_tail :: string where
  "prompt_tail = ''\<newline>\<newline>Jawaban yang Bermanfaat:\<newline>''"

text \<open>
  The sentences of the template that instruct the model: answer the user's question
  ONLY from the context given below; if the information is not found in the context, just
  say the refusal phrase ("Sorry, I did not find information about that in the
  document."); do not try to make up an answer.
\<close>

definition context_only_instruction :: string where
  "context_only_instruction =
     ''Jawablah pertanyaan pengguna HANYA berdasarkan konteks yang diberikan di bawah ini.''"

definition refusal_phrase :: string where
  "refusal_phrase =
     ''Maaf, saya tidak menemukan informasi mengenai hal tersebut di dalam dokumen.''"

definition refusal_instruction :: string where
  "refusal_instruction =
     ''Jika informasi tidak ditemukan dalam konteks, katakan saja '' @
     [CHR 0x22] @ refusal_phrase @ [CHR 0x22]"

definition no_fabrication_instruction :: string where
  "no_fabrication_instruction = ''Jangan mencoba mengarang jawaban.''"

text \<open>The transcript that questions and their answers make, pair by pair.\<close>

fun turns :: "string list \<Rightarrow> string list \<Rightarrow> message list" where
  "turns (q # qs) (a # as) = user_turn q # assistant_turn a # turns qs as"
| "turns _ _ = []"



subsection \<open>Test doubles\<close>

text \<open>
  Deterministic stand-ins for the providers, on which the results below are exercised:
  a four-chunk index scored by the length of the chunk, a language model that always
  answers, one that always fails, and a world that counts the calls made to it.
\<close>

definition chunk :: "string \<Rightarrow> document" where
  "chunk t = \<lparr>page_content = t, metadata = []\<rparr>"

definition stub_index :: "document list" where
  "stub_index = [chunk ''D3'', chunk ''Vokasi'', chunk ''D4 Terapan'', chunk ''UI'']"

definition stub_score :: "string \<Rightarrow> document \<Rightarrow> nat" where
  "stub_score q d = length (page_content d)"

definition stub_llm :: "nat llm" where
  "stub_llm p n = (Inr ''Jawaban'', Suc n)"

definition failing_llm :: "nat llm" where
  "failing_llm p n = (Inl (ProviderError ''quota''), Suc n)"

definition stub_providers :: "nat llm \<Rightarrow> (nat, unit) providers" where
  "stub_providers l =
     \<lparr>ChatGoogleGenerativeAI = (\<lambda>model key. Inr l),
      GoogleGenerativeAIEmbeddings = (\<lambda>model key. Inr ()),
      Chroma = (\<lambda>dir emb. Inr (top_k_search stub_score stub_index))\<rparr>"

definition stub_secrets :: secrets where
  "stub_secrets = SecretsFile [''GOOGLE_API_KEY'' \<mapsto> ''kunci'']"

definition fresh :: session where
  "fresh = \<lparr>messages = None\<rparr>"

section \<open>Properties\<close>

subsection \<open>Rendering the template\<close>

lemma parse_prompt_template:
  "parse Text prompt_template =
     Inr (map Lit prompt_head @ Var ''context'' # map Lit prompt_mid @ Var ''question'' # map Lit prompt_tail)"
  by (simp add: prompt_template_def cons_piece_def prompt_head_def prompt_mid_def prompt_tail_def)

lemma render_Lit_append:
  "render kw (map Lit s @ ps) = (case render kw ps of Inl e \<Rightarrow> Inl e | Inr t \<Rightarrow> Inr (s @ t))"
  by (induction s) (auto split: sum.splits)

lemma render_Lit: "render kw (map Lit s) = Inr s"
  using render_Lit_append [of kw s "[]"] by simp

lemma variables_Lit_append: "variables (map Lit s @ ps) = variables ps"
  by (induction s) auto

lemma variables_Lit: "variables (map Lit s) = []"
  using variables_Lit_append [of s "[]"] by simp

lemma vformat_parse:
  "parse st t = Inr ps \<Longrightarrow> vformat kw st t = render kw ps"
proof (induction st t arbitrary: ps rule: parse.induct)
  case (5 c cs)
  then show ?case
    by (auto simp: cons_piece_def emit_def split: if_splits sum.splits)
next
  case (6 c cs)
  then show ?case
    by (auto simp: cons_piece_def emit_def split: if_splits sum.splits)
next
  case (7 n c cs)
  then show ?case
    by (auto simp: cons_piece_def emit_def split: if_splits sum.splits option.splits)
next
  case (8 c cs)
  then show ?case
    by (auto simp: cons_piece_def emit_def split: if_splits sum.splits)
qed simp_all

lemma compose_eq:
  "compose context question = Inr (prompt_head @ context @ prompt_mid @ question @ prompt_tail)"
  by (simp add: compose_def prompt_invoke_def prompt_def format_str_def
      vformat_parse [OF parse_prompt_template] render_Lit_append render_Lit)

lemma template_variables:
  "map_sum id variables (parse Text (template prompt)) = Inr [''context'', ''question'']"
  by (simp add: prompt_def parse_prompt_template variables_Lit_append variables_Lit)

lemma context_only_in_head: "sublist context_only_instruction prompt_head"
  unfolding context_only_instruction_def prompt_head_def by code_simp
lemma refusal_in_head: "sublist refusal_instruction prompt_head"
  unfolding refusal_instruction_def refusal_phrase_def prompt_head_def by code_simp
lemma no_fabrication_in_head: "sublist no_fabrication_instruction prompt_head"
  unfolding no_fabrication_instruction_def prompt_head_def by code_simp

lemma join_closed: "join sep (x # xs) = x @ concat (map (\<lambda>y. sep @ y) xs)"
  by (induction xs arbitrary: x) auto

lemma sublist_join: "x \<in> set xs \<Longrightarrow> sublist x (join sep xs)"
  by (induction sep xs rule: join.induct) (auto simp: sublist_append)

subsection \<open>The chain and the script\<close>

lemma rag_chain_ok:
  "retriever q w = (Inr docs, w1) \<Longrightarrow>
   rag_chain retriever llm q w = llm (prompt_head @ format_docs docs @ prompt_mid @ q @ prompt_tail) w1"
  by (simp add: rag_chain_def compose_eq)

lemma rag_chain_retrieval_failed:
  "retriever q w = (Inl e, w1) \<Longrightarrow> rag_chain retriever llm q w = (Inl e, w1)"
  by (simp add: rag_chain_def)

lemma rag_chain_cases:
  "rag_chain retriever llm q w = (Inl e, w') \<Longrightarrow>
   retriever q w = (Inl e, w') \<or>
   (\<exists>docs w1. retriever q w = (Inr docs, w1) \<and>
      llm (prompt_head @ format_docs docs @ prompt_mid @ q @ prompt_tail) w1 = (Inl e, w'))"
  by (auto simp: rag_chain_def compose_eq split: prod.splits sum.splits)

lemma script_loaded:
  "secrets_getitem secrets ''GOOGLE_API_KEY'' = Inr key \<Longrightarrow>
   load_components P key = (ui1, Some llm, Some retriever) \<Longrightarrow>
   script P secrets inp ss w =
     chat retriever llm inp ss w
       ([St_title page_title, St_caption ''Tanyakan apapun terkait dokumen pengetahuan Anda''] @ ui1)"
  by (simp add: script_def)

lemma script_not_loaded:
  "secrets_getitem secrets ''GOOGLE_API_KEY'' = Inr key \<Longrightarrow>
   load_components P key = (ui1, l, r) \<Longrightarrow> l = None \<or> r = None \<Longrightarrow>
   script P secrets inp ss w =
     \<lparr>session = ss, world = w,
      shown = [St_title page_title, St_caption ''Tanyakan apapun terkait dokumen pengetahuan Anda''] @ ui1,
      outcome = Stopped, response = None\<rparr>"
  by (cases l; cases r) (auto simp: script_def)

lemma transcript_init:
  "transcript (if messages ss = None then ss\<lparr>messages := Some []\<rparr> else ss) = transcript ss"
  by (simp add: transcript_def)

lemma chat_failed:
  "q \<noteq> [] \<Longrightarrow> rag_chain retriever llm q w = (Inl e, w') \<Longrightarrow>
   chat retriever llm \<lparr>reset_clicked = False, user_prompt = Some q\<rparr> ss w ui =
     \<lparr>session = ss\<lparr>messages := Some (transcript ss @ [user_turn q])\<rparr>, world = w',
      shown = ui @ [St_subheader ''Opsi'', St_button ''Reset Percakapan'']
                @ concat (map (\<lambda>m. [St_chat_message (role m), St_markdown (content m)]) (transcript ss))
                @ [St_chat_input ''Apa yang ingin Anda tanyakan?'',
                   St_chat_message ''user'', St_markdown q,
                   St_chat_message ''assistant'', St_spinner ''Mencari jawaban...''],
      outcome = Raised e, response = None\<rparr>"
  by (simp add: chat_def Let_def transcript_def)

lemma chat_answered:
  "q \<noteq> [] \<Longrightarrow> rag_chain retriever llm q w = (Inr a, w') \<Longrightarrow>
   chat retriever llm \<lparr>reset_clicked = False, user_prompt = Some q\<rparr> ss w ui =
     \<lparr>session = ss\<lparr>messages := Some (transcript ss @ [user_turn q, assistant_turn a])\<rparr>, world = w',
      shown = ui @ [St_subheader ''Opsi'', St_button ''Reset Percakapan'']
                @ concat (map (\<lambda>m. [St_chat_message (role m), St_markdown (content m)]) (transcript ss))
                @ [St_chat_input ''Apa yang ingin Anda tanyakan?'',
                   St_chat_message ''user'', St_markdown q,
                   St_chat_message ''assistant'', St_spinner ''Mencari jawaban...'', St_markdown a],
      outcome = Finished, response = Some a\<rparr>"
  by (simp add: chat_def Let_def transcript_def)

lemma chat_not_rerun:
  "\<not> reset_clicked inp \<Longrightarrow> outcome (chat retriever llm inp ss w ui) \<noteq> Rerun"
  by (auto simp: chat_def Let_def split: option.splits prod.splits sum.splits)

lemma script_not_rerun:
  "\<not> reset_clicked inp \<Longrightarrow> outcome (script P secrets inp ss w) \<noteq> Rerun"
  by (auto simp: script_def Let_def chat_not_rerun split: option.splits prod.splits sum.splits)

lemma submit_script:
  "submit P secrets q ss w = script P secrets \<lparr>reset_clicked = False, user_prompt = Some q\<rparr> ss w"
  using script_not_rerun [of "\<lparr>reset_clicked = False, user_prompt = Some q\<rparr>" P secrets ss w]
  by (simp add: submit_def script_run_def Let_def)

lemma chat_appends:
  "\<exists>ts. transcript (session (chat retriever llm \<lparr>reset_clicked = False, user_prompt = Some q\<rparr> ss w ui))
          = transcript ss @ ts \<and>
     (case response (chat retriever llm \<lparr>reset_clicked = False, user_prompt = Some q\<rparr> ss w ui) of
        Some a \<Rightarrow> ts = [user_turn q, assistant_turn a]
      | None \<Rightarrow> ts = [] \<or> ts = [user_turn q])"
  by (auto simp: chat_def Let_def transcript_def split: option.splits prod.splits sum.splits)

lemma submit_appends:
  "\<exists>ts. transcript (session (submit P secrets q ss w)) = transcript ss @ ts \<and>
     (case response (submit P secrets q ss w) of
        Some a \<Rightarrow> ts = [user_turn q, assistant_turn a]
      | None \<Rightarrow> ts = [] \<or> ts = [user_turn q])"
proof (cases "secrets_getitem secrets ''GOOGLE_API_KEY''")
  case (Inl e)
  then show ?thesis by (cases "is_KeyError e") (simp_all add: submit_script script_def)
next
  case Some: (Inr key)
  obtain ui1 l r where lc: "load_components P key = (ui1, l, r)"
    by (cases "load_components P key") auto
  show ?thesis
  proof (cases "l = None \<or> r = None")
    case True
    with Some lc show ?thesis
      using script_not_loaded [of secrets key P ui1 l r "\<lparr>reset_clicked = False, user_prompt = Some q\<rparr>" ss w]
      by (simp add: submit_script)
  next
    case False
    then obtain llm retriever where "l = Some llm" "r = Some retriever" by auto
    with Some lc have eq: "submit P secrets q ss w =
        chat retriever llm \<lparr>reset_clicked = False, user_prompt = Some q\<rparr> ss w
          ([St_title page_title, St_caption ''Tanyakan apapun terkait dokumen pengetahuan Anda''] @ ui1)"
      by (simp add: submit_script script_loaded)
    show ?thesis
      unfolding eq by (rule chat_appends)
  qed
qed

lemma submit_all_turns:
  "submit_all P secrets qs ss w = Some (ss', w', answers) \<Longrightarrow>
   length answers = length qs \<and> transcript ss' = transcript ss @ turns qs answers"
proof (induction qs arbitrary: ss w answers)
  case Nil
  then show ?case by simp
next
  case (Cons q qs)
  let ?r = "submit P secrets q ss w"
  from Cons.prems obtain a as where
    fin: "outcome ?r = Finished" and resp: "response ?r = Some a" and
    rest: "submit_all P secrets qs (session ?r) (world ?r) = Some (ss', w', as)" and
    ans: "answers = a # as"
    by (auto simp: Let_def split: outcome.splits option.splits prod.splits)
  from submit_appends [of P secrets q ss w] resp
  have step: "transcript (session ?r) = transcript ss @ [user_turn q, assistant_turn a]"
    by auto
  from Cons.IH [OF rest] step ans show ?case by simp
qed

lemma length_turns: "length as = length qs \<Longrightarrow> length (turns qs as) = 2 * length qs"
  by (induction qs as rule: turns.induct) auto

lemma roles_turns:
  "length as = length qs \<Longrightarrow>
   map role (turns qs as) = concat (replicate (length qs) [''user'', ''assistant''])"
  by (induction qs as rule: turns.induct) (auto simp: user_turn_def assistant_turn_def)

subsection \<open>The prompt and the joined context\<close>

text \<open>
  Claim C1. Whenever the retriever returns chunks for a question, the chain hands the
  language model one prompt, the template rendered on the joined chunks and the question;
  that prompt contains the question verbatim and the text of every retrieved chunk
  verbatim.
\<close>

theorem prompt_contains_question_and_chunks:
  assumes "retriever question w = (Inr docs, w1)"
  shows "\<exists>p. compose (format_docs docs) question = Inr p \<and>
             rag_chain retriever llm question w = llm p w1 \<and>
             sublist question p \<and>
             (\<forall>d\<in>set docs. sublist (page_content d) p)"
proof -
  let ?p = "prompt_head @ format_docs docs @ prompt_mid @ question @ prompt_tail"
  have q: "sublist question ?p"
    using sublist_appendI [of question "prompt_head @ format_docs docs @ prompt_mid" prompt_tail]
    by simp
  have ctx: "sublist (format_docs docs) ?p"
    using sublist_appendI [of "format_docs docs" prompt_head "prompt_mid @ question @ prompt_tail"]
    by simp
  have "sublist (page_content d) ?p" if "d \<in> set docs" for d
  proof -
    from that have "sublist (page_content d) (format_docs docs)"
      by (simp add: format_docs_def sublist_join)
    with ctx show ?thesis by (rule sublist_order.order_trans [rotated])
  qed
  with q show ?thesis
    using rag_chain_ok [of retriever question w docs w1 llm] assms by (simp add: compose_eq)
qed

text \<open>The stub index returns three chunks for a question; all three and the question are in the prompt.\<close>

theorem prompt_contains_question_and_chunks_witness:
  "as_retriever (top_k_search stub_score stub_index) 3 ''Apa itu vokasi?'' (0::nat)
     = (Inr [chunk ''D4 Terapan'', chunk ''Vokasi'', chunk ''UI''], 0) \<and>
   (\<exists>p. compose (format_docs [chunk ''D4 Terapan'', chunk ''Vokasi'', chunk ''UI''])
           ''Apa itu vokasi?'' = Inr p \<and>
        rag_chain (as_retriever (top_k_search stub_score stub_index) 3) stub_llm
           ''Apa itu vokasi?'' 0 = stub_llm p 0 \<and>
        sublist ''Apa itu vokasi?'' p \<and>
        sublist ''D4 Terapan'' p \<and> sublist ''Vokasi'' p \<and> sublist ''UI'' p)"
proof -
  have r: "as_retriever (top_k_search stub_score stub_index) 3 ''Apa itu vokasi?'' (0::nat)
     = (Inr [chunk ''D4 Terapan'', chunk ''Vokasi'', chunk ''UI''], 0)"
    by (simp add: as_retriever_def top_k_search_def stub_score_def stub_index_def chunk_def)
  from prompt_contains_question_and_chunks
         [of "as_retriever (top_k_search stub_score stub_index) 3" "''Apa itu vokasi?''" "0::nat"
             "[chunk ''D4 Terapan'', chunk ''Vokasi'', chunk ''UI'']" 0 stub_llm] r
  show ?thesis
    by (simp add: chunk_def)
qed

text \<open>
  Claim C2. \<open>format_docs\<close> concatenates the chunks' texts in input order with exactly
  two newline characters before every chunk but the first; no chunks give the empty
  string, and two chunks \<open>a\<close>, \<open>b\<close> give the text of \<open>a\<close>, two newlines, the text of
  \<open>b\<close>.
\<close>

theorem format_docs_separator:
  "format_docs [] = [] \<and>
   format_docs (d # ds) = page_content d @ concat (map (\<lambda>e. ''\<newline>\<newline>'' @ page_content e) ds) \<and>
   format_docs [a, b] = page_content a @ ''\<newline>\<newline>'' @ page_content b"
  by (simp add: format_docs_def join_closed comp_def)

text \<open>
  Claim C5. The prompt is one fixed template with exactly two fields, \<open>context\<close> and
  \<open>question\<close> in this order, which are also its declared input variables; rendering
  it on a context and a question gives the fixed head, the context, the fixed middle,
  the question and the fixed tail. The head, which every rendered prompt starts with,
  holds the three instructions verbatim: answer only from the context given, say the
  refusal phrase when the context lacks the information, do not make up an answer.
\<close>

theorem prompt_template_contract:
  "input_variables prompt = [''context'', ''question''] \<and>
   map_sum id variables (parse Text (template prompt)) = Inr [''context'', ''question''] \<and>
   compose context question = Inr (prompt_head @ context @ prompt_mid @ question @ prompt_tail) \<and>
   sublist context_only_instruction prompt_head \<and>
   sublist refusal_instruction prompt_head \<and>
   sublist no_fabrication_instruction prompt_head"
  by (simp add: template_variables compose_eq context_only_in_head refusal_in_head no_fabrication_in_head) (simp add: prompt_def)

subsection \<open>The top-K search and the test doubles\<close>

lemma ranked_sorted:
  "sorted_wrt (\<lambda>a b. f b \<le> f a) (rev (sort_key f xs))"
  using sorted_sort_key [of f xs] by (simp add: sorted_wrt_rev sorted_map)

lemma top_k_sorted:
  "sorted_wrt (\<lambda>a b. f b \<le> f a) (take k (rev (sort_key f xs)))"
  using ranked_sorted [of f xs] by (rule sorted_wrt_take)

lemma top_k_mset:
  "mset (take k (rev (sort_key f xs))) \<subseteq># mset xs"
proof -
  have "mset (take k (rev (sort_key f xs))) \<subseteq># mset (rev (sort_key f xs))"
    by (metis append_take_drop_id mset_subset_eq_add_left mset_append)
  then show ?thesis by simp
qed

lemma top_k_rest:
  "mset xs - mset (take k (rev (sort_key f xs))) = mset (drop k (rev (sort_key f xs)))"
proof -
  have "mset xs = mset (take k (rev (sort_key f xs)) @ drop k (rev (sort_key f xs)))"
    by simp
  then show ?thesis by (simp del: append_take_drop_id mset_rev)
qed

lemma top_k_best:
  assumes "d \<in> set (drop k (rev (sort_key f xs)))" and "d' \<in> set (take k (rev (sort_key f xs)))"
  shows "f d \<le> f d'"
proof -
  have "sorted_wrt (\<lambda>a b. f b \<le> f a) (take k (rev (sort_key f xs)) @ drop k (rev (sort_key f xs)))"
    using ranked_sorted [of f xs] by simp
  with assms show ?thesis
    unfolding sorted_wrt_append by blast
qed

lemma stub_loaded:
  "load_components (stub_providers l) key =
     ([], Some l, Some (as_retriever (top_k_search stub_score stub_index) 3))"
  by (simp add: load_components_def stub_providers_def)

lemma stub_retrieved:
  "as_retriever (top_k_search stub_score stub_index) 3 q (w::nat) =
     (Inr [chunk ''D4 Terapan'', chunk ''Vokasi'', chunk ''UI''], w)"
  by (simp add: as_retriever_def top_k_search_def stub_score_def stub_index_def chunk_def)

lemma stub_answered:
  "rag_chain (as_retriever (top_k_search stub_score stub_index) 3) stub_llm q (w::nat) =
     (Inr ''Jawaban'', Suc w)"
  using rag_chain_ok [of "as_retriever (top_k_search stub_score stub_index) 3" q w _ w stub_llm]
    stub_retrieved [of q w]
  by (simp add: stub_llm_def)

lemma stub_failed:
  "rag_chain (as_retriever (top_k_search stub_score stub_index) 3) failing_llm q (w::nat) =
     (Inl (ProviderError ''quota''), Suc w)"
  using rag_chain_ok [of "as_retriever (top_k_search stub_score stub_index) 3" q w _ w failing_llm]
    stub_retrieved [of q w]
  by (simp add: failing_llm_def)

lemma stub_submit_answered:
  "q \<noteq> [] \<Longrightarrow>
   session (submit (stub_providers stub_llm) stub_secrets q ss (w::nat)) =
     ss\<lparr>messages := Some (transcript ss @ [user_turn q, assistant_turn ''Jawaban''])\<rparr> \<and>
   world (submit (stub_providers stub_llm) stub_secrets q ss w) = Suc w \<and>
   outcome (submit (stub_providers stub_llm) stub_secrets q ss w) = Finished \<and>
   response (submit (stub_providers stub_llm) stub_secrets q ss w) = Some ''Jawaban''"
  using script_loaded [of stub_secrets "''kunci''" "stub_providers stub_llm" "[]" stub_llm
      "as_retriever (top_k_search stub_score stub_index) 3"
      "\<lparr>reset_clicked = False, user_prompt = Some q\<rparr>" ss w]
    chat_answered [of q "as_retriever (top_k_search stub_score stub_index) 3" stub_llm w
      "''Jawaban''" "Suc w" ss]
  by (simp add: submit_script stub_loaded stub_answered stub_secrets_def)


subsection \<open>Retrieval\<close>

text \<open>
  Claim C3. With the vector store the spec describes behind \<open>Chroma\<close>, the retriever
  that \<open>load_components\<close> builds (\<open>k = 3\<close>) returns, for every query, at most 3 chunks,
  exactly 3 when the index holds at least 3 and all of them when it holds fewer, in
  descending order of similarity score; they are chunks of the index, none of the chunks
  left out scores higher than a returned one, and the chain joins exactly the returned
  list, in the returned order, into the prompt (no re-ranking, filtering or deduplication).
\<close>

theorem retrieve_top_k:
  assumes "ChatGoogleGenerativeAI P ''gemini-1.5-flash'' key = Inr llm"
    and "GoogleGenerativeAIEmbeddings P ''models/embedding-001'' key = Inr emb"
    and "Chroma P ''chroma_db'' emb = Inr (top_k_search score index)"
  shows "load_components P key =
           ([], Some llm, Some (as_retriever (top_k_search score index) 3)) \<and>
         (\<exists>ds. as_retriever (top_k_search score index) 3 q w = (Inr ds, w) \<and>
            length ds \<le> 3 \<and>
            (3 \<le> length index \<longrightarrow> length ds = 3) \<and>
            (length index < 3 \<longrightarrow> length ds = length index) \<and>
            sorted_wrt (\<lambda>a b. score q b \<le> score q a) ds \<and>
            mset ds \<subseteq># mset index \<and>
            (\<forall>d \<in># mset index - mset ds. \<forall>d' \<in> set ds. score q d \<le> score q d') \<and>
            rag_chain (as_retriever (top_k_search score index) 3) llm q w =
              llm (prompt_head @ format_docs ds @ prompt_mid @ q @ prompt_tail) w)"
proof -
  let ?ds = "take 3 (rev (sort_key (score q) index))"
  have r: "as_retriever (top_k_search score index) 3 q w = (Inr ?ds, w)"
    by (simp add: as_retriever_def top_k_search_def)
  have best: "\<forall>d \<in># mset index - mset ?ds. \<forall>d' \<in> set ?ds. score q d \<le> score q d'"
    unfolding top_k_rest using top_k_best [of _ 3 "score q" index] by auto
  have chain: "rag_chain (as_retriever (top_k_search score index) 3) llm q w =
              llm (prompt_head @ format_docs ?ds @ prompt_mid @ q @ prompt_tail) w"
    using rag_chain_ok [of "as_retriever (top_k_search score index) 3" q w ?ds w llm] r by simp
  have load: "load_components P key =
           ([], Some llm, Some (as_retriever (top_k_search score index) 3))"
    using assms by (simp add: load_components_def)
  have "length ?ds \<le> 3" "3 \<le> length index \<longrightarrow> length ?ds = 3"
       "length index < 3 \<longrightarrow> length ?ds = length index"
    by simp_all
  with r best chain load top_k_sorted [of "score q" 3 index] top_k_mset [of 3 "score q" index]
  show ?thesis by blast
qed

text \<open>The stub providers load, and the four-chunk stub index returns its three longest chunks.\<close>

theorem retrieve_top_k_witness:
  "ChatGoogleGenerativeAI (stub_providers stub_llm) ''gemini-1.5-flash'' ''kunci'' = Inr stub_llm \<and>
   GoogleGenerativeAIEmbeddings (stub_providers stub_llm) ''models/embedding-001'' ''kunci'' = Inr () \<and>
   Chroma (stub_providers stub_llm) ''chroma_db'' () = Inr (top_k_search stub_score stub_index) \<and>
   as_retriever (top_k_search stub_score stub_index) 3 ''Apa itu vokasi?'' (0::nat) =
     (Inr [chunk ''D4 Terapan'', chunk ''Vokasi'', chunk ''UI''], 0) \<and>
   length stub_index = 4 \<and>
   load_components (stub_providers stub_llm) ''kunci'' =
     ([], Some stub_llm, Some (as_retriever (top_k_search stub_score stub_index) 3))"
proof -
  have h1: "ChatGoogleGenerativeAI (stub_providers stub_llm) ''gemini-1.5-flash'' ''kunci''
              = Inr stub_llm"
    by (simp add: stub_providers_def)
  have h2: "GoogleGenerativeAIEmbeddings (stub_providers stub_llm) ''models/embedding-001''
              ''kunci'' = Inr ()"
    by (simp add: stub_providers_def)
  have h3: "Chroma (stub_providers stub_llm) ''chroma_db'' ()
              = Inr (top_k_search stub_score stub_index)"
    by (simp add: stub_providers_def)
  have r: "as_retriever (top_k_search stub_score stub_index) 3 ''Apa itu vokasi?'' (0::nat) =
     (Inr [chunk ''D4 Terapan'', chunk ''Vokasi'', chunk ''UI''], 0)"
    by (rule stub_retrieved)
  have n: "length stub_index = 4"
    by (simp add: stub_index_def)
  from retrieve_top_k [of "stub_providers stub_llm" "''kunci''" stub_llm "()" stub_score
      stub_index "''Apa itu vokasi?''" "0::nat", OF h1 h2 h3]
  have "load_components (stub_providers stub_llm) ''kunci'' =
     ([], Some stub_llm, Some (as_retriever (top_k_search stub_score stub_index) 3))"
    by (rule conjunct1)
  with h1 h2 h3 r n show ?thesis by (intro conjI)
qed

text \<open>
  Claim C9. On an index of zero chunks the retriever returns the empty list, joining
  the empty list gives the empty string, and the prompt is still rendered: the fixed
  head, an empty context, the fixed middle, the question and the fixed tail; that is the
  prompt the chain hands to the language model.
\<close>

theorem empty_index_prompt:
  "as_retriever (top_k_search score []) 3 q w = (Inr [], w) \<and>
   format_docs [] = [] \<and>
   compose (format_docs []) q = Inr (prompt_head @ prompt_mid @ q @ prompt_tail) \<and>
   rag_chain (as_retriever (top_k_search score []) 3) llm q w =
     llm (prompt_head @ prompt_mid @ q @ prompt_tail) w"
proof -
  have r: "as_retriever (top_k_search score []) 3 q w = (Inr [], w)"
    by (simp add: as_retriever_def top_k_search_def)
  have j: "format_docs [] = []"
    by (simp add: format_docs_def)
  from rag_chain_ok [of "as_retriever (top_k_search score []) 3" q w "[]" w llm] r j
  show ?thesis by (simp add: compose_eq)
qed

subsection \<open>The chat session\<close>

text \<open>
  Claim C4. After \<open>N\<close> successful submits from an empty transcript (each execution
  ends at its last line with an answer bound to \<open>response\<close>), the transcript holds
  exactly \<open>2 * N\<close> turns, with roles user, assistant, user, assistant, ...: it is the
  questions paired with their answers, in order. Every submit appends to the transcript
  nothing, or the user turn with the whole question, or that turn followed by the
  assistant turn with the whole value of \<open>response\<close>: an assistant turn is appended only
  when the chain has returned its answer.
\<close>

theorem transcript_alternates:
  assumes "submit_all P secrets qs ss w = Some (ss', w', answers)"
    and "transcript ss = []"
  shows "length (transcript ss') = 2 * length qs \<and>
         map role (transcript ss') = concat (replicate (length qs) [''user'', ''assistant'']) \<and>
         length answers = length qs \<and>
         transcript ss' = turns qs answers \<and>
         (\<forall>q ss0 w0. \<exists>ts.
            transcript (session (submit P secrets q ss0 w0)) = transcript ss0 @ ts \<and>
            (case response (submit P secrets q ss0 w0) of
               Some a \<Rightarrow> ts = [user_turn q, assistant_turn a]
             | None \<Rightarrow> ts = [] \<or> ts = [user_turn q]))"
proof -
  from submit_all_turns [OF assms(1)] assms(2)
  have len: "length answers = length qs" and tr: "transcript ss' = turns qs answers"
    by simp_all
  from len tr show ?thesis
    using submit_appends [of P secrets]
    by (simp add: length_turns roles_turns)
qed

text \<open>Two questions to the stub providers, from a fresh session.\<close>

theorem transcript_alternates_witness:
  "submit_all (stub_providers stub_llm) stub_secrets [''Apa itu vokasi?'', ''Berapa lama D3?'']
      fresh (0::nat)
     = Some (\<lparr>messages = Some [user_turn ''Apa itu vokasi?'', assistant_turn ''Jawaban'',
                               user_turn ''Berapa lama D3?'', assistant_turn ''Jawaban'']\<rparr>,
             2, [''Jawaban'', ''Jawaban'']) \<and>
   transcript fresh = [] \<and>
   map role (transcript \<lparr>messages = Some [user_turn ''Apa itu vokasi?'', assistant_turn ''Jawaban'',
                               user_turn ''Berapa lama D3?'', assistant_turn ''Jawaban'']\<rparr>)
     = [''user'', ''assistant'', ''user'', ''assistant'']"
proof -
  have run: "submit_all (stub_providers stub_llm) stub_secrets
      [''Apa itu vokasi?'', ''Berapa lama D3?''] fresh (0::nat)
     = Some (\<lparr>messages = Some [user_turn ''Apa itu vokasi?'', assistant_turn ''Jawaban'',
                               user_turn ''Berapa lama D3?'', assistant_turn ''Jawaban'']\<rparr>,
             2, [''Jawaban'', ''Jawaban''])"
    by (simp add: stub_submit_answered fresh_def transcript_def)
  have emp: "transcript fresh = []"
    by (simp add: fresh_def transcript_def)
  have "map role (transcript \<lparr>messages = Some [user_turn ''Apa itu vokasi?'', assistant_turn ''Jawaban'',
                               user_turn ''Berapa lama D3?'', assistant_turn ''Jawaban'']\<rparr>)
     = concat (replicate (length [''Apa itu vokasi?'', ''Berapa lama D3?'']) [''user'', ''assistant''])"
    using transcript_alternates [OF run emp] by (elim conjE)
  also have "\<dots> = [''user'', ''assistant'', ''user'', ''assistant'']"
    by simp
  finally show ?thesis
    by (intro conjI run emp)
qed





lemma submit_failed:
  assumes "secrets_getitem secrets ''GOOGLE_API_KEY'' = Inr key"
    and "load_components P key = (ui1, Some llm, Some retriever)"
    and "q \<noteq> []"
    and "rag_chain retriever llm q w = (Inl e, w')"
  shows "submit P secrets q ss w =
     \<lparr>session = ss\<lparr>messages := Some (transcript ss @ [user_turn q])\<rparr>, world = w',
      shown = [St_title page_title, St_caption ''Tanyakan apapun terkait dokumen pengetahuan Anda'']
                @ ui1 @ [St_subheader ''Opsi'', St_button ''Reset Percakapan'']
                @ concat (map (\<lambda>m. [St_chat_message (role m), St_markdown (content m)]) (transcript ss))
                @ [St_chat_input ''Apa yang ingin Anda tanyakan?'',
                   St_chat_message ''user'', St_markdown q,
                   St_chat_message ''assistant'', St_spinner ''Mencari jawaban...''],
      outcome = Raised e, response = None\<rparr>"
  using script_loaded [of secrets key P ui1 llm retriever
      "\<lparr>reset_clicked = False, user_prompt = Some q\<rparr>" ss w]
    chat_failed [of q retriever llm w e w' ss] assms
  by (simp add: submit_script)

text \<open>
  Claim C7. When the chain raises on a submitted question, the execution ends with that
  exception uncaught; no answer is bound and none is shown (the page ends at the
  spinner of the assistant's message); the transcript gains no assistant turn; and the
  world is the one the single failing call left: either the retriever failed and the
  language model was never called, or the retriever returned its chunks and the one call
  of the language model on the composed prompt failed. Nothing is called a second time.
\<close>

theorem pipeline_failure_is_fatal:
  assumes "secrets_getitem secrets ''GOOGLE_API_KEY'' = Inr key"
    and "load_components P key = (ui1, Some llm, Some retriever)"
    and "q \<noteq> []"
    and "rag_chain retriever llm q w = (Inl e, w')"
  shows "outcome (submit P secrets q ss w) = Raised e \<and>
         response (submit P secrets q ss w) = None \<and>
         world (submit P secrets q ss w) = w' \<and>
         filter (\<lambda>m. role m = ''assistant'') (transcript (session (submit P secrets q ss w))) =
           filter (\<lambda>m. role m = ''assistant'') (transcript ss) \<and>
         shown (submit P secrets q ss w) =
           [St_title page_title, St_caption ''Tanyakan apapun terkait dokumen pengetahuan Anda'']
           @ ui1 @ [St_subheader ''Opsi'', St_button ''Reset Percakapan'']
           @ concat (map (\<lambda>m. [St_chat_message (role m), St_markdown (content m)]) (transcript ss))
           @ [St_chat_input ''Apa yang ingin Anda tanyakan?'',
              St_chat_message ''user'', St_markdown q,
              St_chat_message ''assistant'', St_spinner ''Mencari jawaban...''] \<and>
         (retriever q w = (Inl e, w') \<or>
          (\<exists>docs w1. retriever q w = (Inr docs, w1) \<and>
             llm (prompt_head @ format_docs docs @ prompt_mid @ q @ prompt_tail) w1 = (Inl e, w')))"
proof -
  have once: "retriever q w = (Inl e, w') \<or>
          (\<exists>docs w1. retriever q w = (Inr docs, w1) \<and>
             llm (prompt_head @ format_docs docs @ prompt_mid @ q @ prompt_tail) w1 = (Inl e, w'))"
    using assms(4) by (rule rag_chain_cases)
  show ?thesis
    unfolding submit_failed [of secrets key P ui1 llm retriever q w e w' ss, OF assms]
    using once by (simp add: transcript_def user_turn_def)
qed

text \<open>The stub retriever with a language model that always fails.\<close>

theorem pipeline_failure_is_fatal_witness:
  "secrets_getitem stub_secrets ''GOOGLE_API_KEY'' = Inr ''kunci'' \<and>
   load_components (stub_providers failing_llm) ''kunci'' =
     ([], Some failing_llm, Some (as_retriever (top_k_search stub_score stub_index) 3)) \<and>
   ''Apa itu vokasi?'' \<noteq> [] \<and>
   rag_chain (as_retriever (top_k_search stub_score stub_index) 3) failing_llm
     ''Apa itu vokasi?'' (0::nat) = (Inl (ProviderError ''quota''), 1) \<and>
   outcome (submit (stub_providers failing_llm) stub_secrets ''Apa itu vokasi?'' fresh 0)
     = Raised (ProviderError ''quota'')"
proof -
  have h1: "secrets_getitem stub_secrets ''GOOGLE_API_KEY'' = Inr ''kunci''"
    by (simp add: stub_secrets_def)
  have h2: "load_components (stub_providers failing_llm) ''kunci'' =
     ([], Some failing_llm, Some (as_retriever (top_k_search stub_score stub_index) 3))"
    by (rule stub_loaded)
  have h3: "''Apa itu vokasi?'' \<noteq> []"
    by simp
  have h4: "rag_chain (as_retriever (top_k_search stub_score stub_index) 3) failing_llm
     ''Apa itu vokasi?'' (0::nat) = (Inl (ProviderError ''quota''), 1)"
    by (simp add: stub_failed)
  from pipeline_failure_is_fatal
         [of stub_secrets "''kunci''" "stub_providers failing_llm" "[]" failing_llm
             "as_retriever (top_k_search stub_score stub_index) 3" "''Apa itu vokasi?''" "0::nat"
             "ProviderError ''quota''" 1 fresh, OF h1 h2 h3 h4]
  have "outcome (submit (stub_providers failing_llm) stub_secrets ''Apa itu vokasi?'' fresh 0)
     = Raised (ProviderError ''quota'')"
    by (rule conjunct1)
  with h1 h2 h3 h4 show ?thesis by (intro conjI)
qed

text \<open>
  Claim C8. Wherever the reset button is on the page (the key is set and both components
  loaded), clicking it leaves, whatever the session state was, a transcript of zero
  turns; the re-execution ends at its last line and no provider is called.
\<close>

theorem reset_empties_transcript:
  assumes "secrets_getitem secrets ''GOOGLE_API_KEY'' = Inr key"
    and "load_components P key = (ui1, Some llm, Some retriever)"
  shows "transcript (session (reset P secrets ss w)) = [] \<and>
         messages (session (reset P secrets ss w)) = Some [] \<and>
         outcome (reset P secrets ss w) = Finished \<and>
         world (reset P secrets ss w) = w"
  using script_loaded [of secrets key P ui1 llm retriever _ _ w, OF assms]
  by (simp add: reset_def script_run_def chat_def Let_def transcript_def)

text \<open>Resetting a transcript of two turns.\<close>

theorem reset_empties_transcript_witness:
  "secrets_getitem stub_secrets ''GOOGLE_API_KEY'' = Inr ''kunci'' \<and>
   load_components (stub_providers stub_llm) ''kunci'' =
     ([], Some stub_llm, Some (as_retriever (top_k_search stub_score stub_index) 3)) \<and>
   transcript (session (reset (stub_providers stub_llm) stub_secrets
      \<lparr>messages = Some [user_turn ''Apa itu vokasi?'', assistant_turn ''Jawaban'']\<rparr> (0::nat))) = []"
proof -
  have h1: "secrets_getitem stub_secrets ''GOOGLE_API_KEY'' = Inr ''kunci''"
    by (simp add: stub_secrets_def)
  have h2: "load_components (stub_providers stub_llm) ''kunci'' =
     ([], Some stub_llm, Some (as_retriever (top_k_search stub_score stub_index) 3))"
    by (rule stub_loaded)
  from reset_empties_transcript
         [of stub_secrets "''kunci''" "stub_providers stub_llm" "[]" stub_llm
             "as_retriever (top_k_search stub_score stub_index) 3", OF h1 h2]
  have "transcript (session (reset (stub_providers stub_llm) stub_secrets
      \<lparr>messages = Some [user_turn ''Apa itu vokasi?'', assistant_turn ''Jawaban'']\<rparr> (0::nat))) = []"
    by (rule conjunct1)
  with h1 h2 show ?thesis by (intro conjI)
qed

text \<open>
  Claim C10. The user turn is appended before the chain is invoked and stays when the
  chain raises: the transcript afterwards is the prior transcript followed by exactly
  one user turn holding the question, with no assistant turn after it.
\<close>

theorem failed_submit_keeps_user_turn:
  assumes "secrets_getitem secrets ''GOOGLE_API_KEY'' = Inr key"
    and "load_components P key = (ui1, Some llm, Some retriever)"
    and "q \<noteq> []"
    and "rag_chain retriever llm q w = (Inl e, w')"
  shows "transcript (session (submit P secrets q ss w)) = transcript ss @ [user_turn q]"
  unfolding submit_failed [of secrets key P ui1 llm retriever q w e w' ss, OF assms] by (simp add: transcript_def)

text \<open>A failing submit after one answered question.\<close>

theorem failed_submit_keeps_user_turn_witness:
  "secrets_getitem stub_secrets ''GOOGLE_API_KEY'' = Inr ''kunci'' \<and>
   load_components (stub_providers failing_llm) ''kunci'' =
     ([], Some failing_llm, Some (as_retriever (top_k_search stub_score stub_index) 3)) \<and>
   ''Berapa lama D3?'' \<noteq> [] \<and>
   rag_chain (as_retriever (top_k_search stub_score stub_index) 3) failing_llm
     ''Berapa lama D3?'' (0::nat) = (Inl (ProviderError ''quota''), 1) \<and>
   transcript (session (submit (stub_providers failing_llm) stub_secrets ''Berapa lama D3?''
      \<lparr>messages = Some [user_turn ''Apa itu vokasi?'', assistant_turn ''Jawaban'']\<rparr> 0))
     = [user_turn ''Apa itu vokasi?'', assistant_turn ''Jawaban'', user_turn ''Berapa lama D3?'']"
proof -
  have h1: "secrets_getitem stub_secrets ''GOOGLE_API_KEY'' = Inr ''kunci''"
    by (simp add: stub_secrets_def)
  have h2: "load_components (stub_providers failing_llm) ''kunci'' =
     ([], Some failing_llm, Some (as_retriever (top_k_search stub_score stub_index) 3))"
    by (rule stub_loaded)
  have h3: "''Berapa lama D3?'' \<noteq> []"
    by simp
  have h4: "rag_chain (as_retriever (top_k_search stub_score stub_index) 3) failing_llm
     ''Berapa lama D3?'' (0::nat) = (Inl (ProviderError ''quota''), 1)"
    by (simp add: stub_failed)
  have "transcript (session (submit (stub_providers failing_llm) stub_secrets ''Berapa lama D3?''
      \<lparr>messages = Some [user_turn ''Apa itu vokasi?'', assistant_turn ''Jawaban'']\<rparr> 0))
     = transcript \<lparr>messages = Some [user_turn ''Apa itu vokasi?'', assistant_turn ''Jawaban'']\<rparr>
         @ [user_turn ''Berapa lama D3?'']"
    by (rule failed_submit_keeps_user_turn
         [of stub_secrets "''kunci''" "stub_providers failing_llm" "[]" failing_llm
             "as_retriever (top_k_search stub_score stub_index) 3" "''Berapa lama D3?''" "0::nat"
             "ProviderError ''quota''" 1, OF h1 h2 h3 h4])
  also have "\<dots> = [user_turn ''Apa itu vokasi?'', assistant_turn ''Jawaban'', user_turn ''Berapa lama D3?'']"
    by (simp add: transcript_def)
  finally show ?thesis using h1 h2 h3 h4 by (intro conjI)
qed

end
